theory Spec2Isabelle
  imports Main "HOL-Library.Word"
begin

section \<open>The baud-rate table of SerialPort.hpp\<close>

text \<open>
  \<^verbatim>\<open>getBaudrate\<close> (SerialPort.hpp, lines 27 to 63) is a \<^verbatim>\<open>switch\<close> over the
  numeric rate. Each case returns one of the macros \<^verbatim>\<open>B0\<close> ... \<^verbatim>\<open>B4000000\<close>
  of the platform header \<^verbatim>\<open>termios.h\<close>, the default case returns \<^verbatim>\<open>-1\<close>.
  The header belongs to the platform, not to the repository, so the macros are named by
  a datatype and their values are a parameter \<open>speed\<close> of the model. The return
  type \<^verbatim>\<open>speed_t\<close> is an unsigned 32-bit integer, so the default \<^verbatim>\<open>-1\<close>
  is the word \<open>- 1\<close>, all bits set.
\<close>

datatype termios_baud =
    B0 | B50 | B75 | B110 | B134 | B150 | B200 | B300 | B600 | B1200 | B1800
  | B2400 | B4800 | B9600 | B19200 | B38400 | B57600 | B115200 | B230400
  | B460800 | B500000 | B576000 | B921600 | B1000000 | B1152000 | B1500000
  | B2000000 | B2500000 | B3000000 | B3500000 | B4000000

type_synonym speed_t = "32 word"

definition getBaudrate :: "(termios_baud \<Rightarrow> speed_t) \<Rightarrow> int \<Rightarrow> speed_t" where
  "getBaudrate speed baudrate =
     (if baudrate = 0 then speed B0
      else if baudrate = 50 then speed B50
      else if baudrate = 75 then speed B75
      else if baudrate = 110 then speed B110
      else if baudrate = 134 then speed B134
      else if baudrate = 150 then speed B150
      else if baudrate = 200 then speed B200
      else if baudrate = 300 then speed B300
      else if baudrate = 600 then speed B600
      else if baudrate = 1200 then speed B1200
      else if baudrate = 1800 then speed B1800
      else if baudrate = 2400 then speed B2400
      else if baudrate = 4800 then speed B4800
      else if baudrate = 9600 then speed B9600
      else if baudrate = 19200 then speed B19200
      else if baudrate = 38400 then speed B38400
      else if baudrate = 57600 then speed B57600
      else if baudrate = 115200 then speed B115200
      else if baudrate = 230400 then speed B230400
      else if baudrate = 460800 then speed B460800
      else if baudrate = 500000 then speed B500000
      else if baudrate = 576000 then speed B576000
      else if baudrate = 921600 then speed B921600
      else if baudrate = 1000000 then speed B1000000
      else if baudrate = 1152000 then speed B1152000
      else if baudrate = 1500000 then speed B1500000
      else if baudrate = 2000000 then speed B2000000
      else if baudrate = 2500000 then speed B2500000
      else if baudrate = 3000000 then speed B3000000
      else if baudrate = 3500000 then speed B3500000
      else if baudrate = 4000000 then speed B4000000
      else - 1)"

text \<open>The sentinel of the default case, read as a \<^verbatim>\<open>speed_t\<close>.\<close>

definition unsupported :: speed_t where
  "unsupported = - 1"

text \<open>
  The specification's side of the table: the enumerated set of supported rates, and the
  macro the specification pairs with each rate (the macro that carries the rate in its
  name).
\<close>

definition supported_rates :: "int set" where
  "supported_rates =
     {0, 50, 75, 110, 134, 150, 200, 300, 600, 1200, 1800, 2400, 4800, 9600, 19200,
      38400, 57600, 115200, 230400, 460800, 500000, 576000, 921600, 1000000, 1152000,
      1500000, 2000000, 2500000, 3000000, 3500000, 4000000}"

definition baud_table :: "(int \<times> termios_baud) list" where
  "baud_table =
     [(0, B0), (50, B50), (75, B75), (110, B110), (134, B134), (150, B150),
      (200, B200), (300, B300), (600, B600), (1200, B1200), (1800, B1800),
      (2400, B2400), (4800, B4800), (9600, B9600), (19200, B19200), (38400, B38400),
      (57600, B57600), (115200, B115200), (230400, B230400), (460800, B460800),
      (500000, B500000), (576000, B576000), (921600, B921600), (1000000, B1000000),
      (1152000, B1152000), (1500000, B1500000), (2000000, B2000000),
      (2500000, B2500000), (3000000, B3000000), (3500000, B3500000),
      (4000000, B4000000)]"

fun rate_of :: "termios_baud \<Rightarrow> int" where
  "rate_of B0 = 0"
| "rate_of B50 = 50"
| "rate_of B75 = 75"
| "rate_of B110 = 110"
| "rate_of B134 = 134"
| "rate_of B150 = 150"
| "rate_of B200 = 200"
| "rate_of B300 = 300"
| "rate_of B600 = 600"
| "rate_of B1200 = 1200"
| "rate_of B1800 = 1800"
| "rate_of B2400 = 2400"
| "rate_of B4800 = 4800"
| "rate_of B9600 = 9600"
| "rate_of B19200 = 19200"
| "rate_of B38400 = 38400"
| "rate_of B57600 = 57600"
| "rate_of B115200 = 115200"
| "rate_of B230400 = 230400"
| "rate_of B460800 = 460800"
| "rate_of B500000 = 500000"
| "rate_of B576000 = 576000"
| "rate_of B921600 = 921600"
| "rate_of B1000000 = 1000000"
| "rate_of B1152000 = 1152000"
| "rate_of B1500000 = 1500000"
| "rate_of B2000000 = 2000000"
| "rate_of B2500000 = 2500000"
| "rate_of B3000000 = 3000000"
| "rate_of B3500000 = 3500000"
| "rate_of B4000000 = 4000000"

text \<open>
  One platform's values, for running the table: Linux (and Android's bionic) number the
  macros \<open>0\<close> to \<open>15\<close> up to \<^verbatim>\<open>B38400\<close> and \<open>4097\<close> to \<open>4111\<close>
  (octal \<open>010001\<close> to \<open>010017\<close>) from \<^verbatim>\<open>B57600\<close> on.
\<close>

fun linux_speed :: "termios_baud \<Rightarrow> speed_t" where
  "linux_speed B0 = 0"
| "linux_speed B50 = 1"
| "linux_speed B75 = 2"
| "linux_speed B110 = 3"
| "linux_speed B134 = 4"
| "linux_speed B150 = 5"
| "linux_speed B200 = 6"
| "linux_speed B300 = 7"
| "linux_speed B600 = 8"
| "linux_speed B1200 = 9"
| "linux_speed B1800 = 10"
| "linux_speed B2400 = 11"
| "linux_speed B4800 = 12"
| "linux_speed B9600 = 13"
| "linux_speed B19200 = 14"
| "linux_speed B38400 = 15"
| "linux_speed B57600 = 4097"
| "linux_speed B115200 = 4098"
| "linux_speed B230400 = 4099"
| "linux_speed B460800 = 4100"
| "linux_speed B500000 = 4101"
| "linux_speed B576000 = 4102"
| "linux_speed B921600 = 4103"
| "linux_speed B1000000 = 4104"
| "linux_speed B1152000 = 4105"
| "linux_speed B1500000 = 4106"
| "linux_speed B2000000 = 4107"
| "linux_speed B2500000 = 4108"
| "linux_speed B3000000 = 4109"
| "linux_speed B3500000 = 4110"
| "linux_speed B4000000 = 4111"

section \<open>The JNI entry points of mserialport.cpp\<close>

text \<open>
  The file keeps three globals: the manager \<^verbatim>\<open>mManager\<close>, the VM handle
  \<^verbatim>\<open>g_vm\<close> and the map \<^verbatim>\<open>g_callback_map\<close> from device path to the global
  reference of the read callback. A \<^verbatim>\<open>jobject\<close> is an opaque reference; where the
  source tests it against \<^verbatim>\<open>nullptr\<close> the model has an \<open>option\<close>. A
  \<^verbatim>\<open>jstring\<close> is modelled by its bytes, a \<^verbatim>\<open>jobjectArray\<close> of strings by the
  list of its elements.
\<close>

type_synonym jobject = nat
type_synonym JavaVM = nat

record 'm globals =
  mManager :: 'm
  g_vm :: "JavaVM option"
  g_callback_map :: "string \<rightharpoonup> jobject"

text \<open>The one function of \<^verbatim>\<open>JNIEnv\<close> whose result the entry points store.\<close>

record JNIEnv =
  NewGlobalRef :: "jobject \<Rightarrow> jobject"

text \<open>
  \<^verbatim>\<open>std::make_unique<SPReadWriteWorker>(name, baudRate, vm, callback)\<close>: the class
  is declared in a header that is not part of the sources, so a worker is the value of
  its four constructor arguments. The last one is a pointer into the callback map,
  \<^verbatim>\<open>&g_callback_map[name]\<close>, modelled by the key of the slot it points to, or
  \<^verbatim>\<open>nullptr\<close>. Constructing the worker and handing it to the manager are one
  step of the model: an exception of the constructor ends the entry point where one of
  \<^verbatim>\<open>addSerialPort\<close> does.
\<close>

datatype SPReadWriteWorker = SPReadWriteWorker string int "JavaVM option" "string option"

text \<open>
  \<^verbatim>\<open>SerialPortManager\<close> is declared in \<^verbatim>\<open>SerialPortManager.h\<close>, which is not
  part of the sources either. The entry points call three of its methods and use no
  result of them, so the methods are a parameter of the model: each takes the manager's
  state and returns the new state, together with the exception it raised, if any. The
  methods get no access to \<^verbatim>\<open>g_callback_map\<close>, which is \<^verbatim>\<open>static\<close> in
  \<^verbatim>\<open>mserialport.cpp\<close>.
\<close>

record ('m, 'e) SerialPortManager =
  addSerialPort :: "string \<Rightarrow> SPReadWriteWorker \<Rightarrow> 'm \<Rightarrow> 'm \<times> 'e option"
  removeSerialPort :: "string \<Rightarrow> 'm \<Rightarrow> 'm \<times> 'e option"
  sendMessage :: "string \<Rightarrow> string list \<Rightarrow> 'm \<Rightarrow> 'm \<times> 'e option"

text \<open>
  Modelled from the spec: the macro \<^verbatim>\<open>START_READ\<close> that \<^verbatim>\<open>openSerialPort\<close>
  sends is defined in a header that is not part of the sources. The specification names
  the token: the reserved "start" string (line 12 of \<^verbatim>\<open>mserialport.cpp\<close> declares
  the same literal as \<^verbatim>\<open>start\<close>).
\<close>

definition START_READ :: string where
  "START_READ = ''start''"

text \<open>
  The loop of \<^verbatim>\<open>sendMessage\<close> (lines 24 to 29): for \<open>i\<close> from \<open>0\<close> below
  \<^verbatim>\<open>stringCount\<close>, the \<open>i\<close>-th element of the array is appended to
  \<^verbatim>\<open>msgs\<close>. The entry point runs it with \<^verbatim>\<open>stringCount\<close> the length of the
  array, so every index it reads is in range.
\<close>

function collect_messages :: "string list \<Rightarrow> int \<Rightarrow> int \<Rightarrow> string list \<Rightarrow> string list" where
  "collect_messages commands i stringCount msgs =
     (if i < stringCount
      then collect_messages commands (i + 1) stringCount (msgs @ [commands ! nat i])
      else msgs)"
  by pat_completeness auto
termination
  by (relation "measure (\<lambda>(commands, i, stringCount, msgs). nat (stringCount - i))") auto

text \<open>
  Each entry point returns the globals it leaves behind and the exception that left it,
  if any: a manager call that raises ends the entry point at that call, and what the
  entry point wrote before stays written.
\<close>

definition Java_com_castle_serialport_SerialPortManager_sendMessage ::
  "('m, 'e) SerialPortManager \<Rightarrow> string \<Rightarrow> string list \<Rightarrow> 'm globals \<Rightarrow> 'm globals \<times> 'e option"
where
  "Java_com_castle_serialport_SerialPortManager_sendMessage mgr path commands g =
     (let stringCount = int (length commands);
          msgs = collect_messages commands 0 stringCount []
      in case sendMessage mgr path msgs (mManager g) of
           (m, e) \<Rightarrow> (g\<lparr>mManager := m\<rparr>, e))"

definition Java_com_castle_serialport_SerialPortManager_closeSerialPort ::
  "('m, 'e) SerialPortManager \<Rightarrow> string \<Rightarrow> 'm globals \<Rightarrow> 'm globals \<times> 'e option"
where
  "Java_com_castle_serialport_SerialPortManager_closeSerialPort mgr path g =
     (case removeSerialPort mgr path (mManager g) of
        (m, Some e) \<Rightarrow> (g\<lparr>mManager := m\<rparr>, Some e)
      | (m, None) \<Rightarrow>
          (g\<lparr>mManager := m, g_callback_map := (g_callback_map g)(path := None)\<rparr>, None))"

definition Java_com_castle_serialport_SerialPortManager_openSerialPort ::
  "('m, 'e) SerialPortManager \<Rightarrow> JNIEnv \<Rightarrow> string \<Rightarrow> int \<Rightarrow> jobject option \<Rightarrow>
     'm globals \<Rightarrow> 'm globals \<times> 'e option"
where
  "Java_com_castle_serialport_SerialPortManager_openSerialPort mgr env path baudRate callback g =
     (case callback of
        Some cb \<Rightarrow>
          (let g1 = g\<lparr>g_callback_map := (g_callback_map g)(path \<mapsto> NewGlobalRef env cb)\<rparr>
           in case addSerialPort mgr path
                     (SPReadWriteWorker path baudRate (g_vm g1) (Some path)) (mManager g1) of
                (m, Some e) \<Rightarrow> (g1\<lparr>mManager := m\<rparr>, Some e)
              | (m, None) \<Rightarrow>
                  (case sendMessage mgr path [START_READ] m of
                     (m', e) \<Rightarrow> (g1\<lparr>mManager := m'\<rparr>, e)))
      | None \<Rightarrow>
          (case addSerialPort mgr path
                  (SPReadWriteWorker path baudRate None None) (mManager g) of
             (m, e) \<Rightarrow> (g\<lparr>mManager := m\<rparr>, e)))"

text \<open>
  A sequence of calls from the Java side. It runs until a call lets an exception out.
\<close>

datatype jni_call =
    OpenCall string int "jobject option"
  | CloseCall string
  | SendCall string "string list"

fun jni_step ::
  "('m, 'e) SerialPortManager \<Rightarrow> JNIEnv \<Rightarrow> jni_call \<Rightarrow> 'm globals \<Rightarrow> 'm globals \<times> 'e option"
where
  "jni_step mgr env (OpenCall path baudRate callback) g =
     Java_com_castle_serialport_SerialPortManager_openSerialPort mgr env path baudRate callback g"
| "jni_step mgr env (CloseCall path) g =
     Java_com_castle_serialport_SerialPortManager_closeSerialPort mgr path g"
| "jni_step mgr env (SendCall path commands) g =
     Java_com_castle_serialport_SerialPortManager_sendMessage mgr path commands g"

fun jni_run ::
  "('m, 'e) SerialPortManager \<Rightarrow> JNIEnv \<Rightarrow> jni_call list \<Rightarrow> 'm globals \<Rightarrow> 'm globals \<times> 'e option"
where
  "jni_run mgr env [] g = (g, None)"
| "jni_run mgr env (c # cs) g =
     (case jni_step mgr env c g of
        (g', Some e) \<Rightarrow> (g', Some e)
      | (g', None) \<Rightarrow> jni_run mgr env cs g')"

text \<open>
  Two readings of "the path has a callback registered", both folds over the calls made
  so far, started from whether the path was in the map before. The first is the stated
  one: the most recent \<^verbatim>\<open>openSerialPort\<close> of the path supplied a callback and no
  \<^verbatim>\<open>closeSerialPort\<close> of the path came after it. The second is weaker: some
  \<^verbatim>\<open>openSerialPort\<close> of the path since its last \<^verbatim>\<open>closeSerialPort\<close> supplied
  a callback.
\<close>

fun last_open_had_callback :: "string \<Rightarrow> jni_call list \<Rightarrow> bool \<Rightarrow> bool" where
  "last_open_had_callback p [] b = b"
| "last_open_had_callback p (OpenCall path baudRate callback # cs) b =
     last_open_had_callback p cs (if path = p then callback \<noteq> None else b)"
| "last_open_had_callback p (CloseCall path # cs) b =
     last_open_had_callback p cs (if path = p then False else b)"
| "last_open_had_callback p (SendCall path commands # cs) b =
     last_open_had_callback p cs b"

fun some_open_had_callback :: "string \<Rightarrow> jni_call list \<Rightarrow> bool \<Rightarrow> bool" where
  "some_open_had_callback p [] b = b"
| "some_open_had_callback p (OpenCall path baudRate callback # cs) b =
     some_open_had_callback p cs (if path = p \<and> callback \<noteq> None then True else b)"
| "some_open_had_callback p (CloseCall path # cs) b =
     some_open_had_callback p cs (if path = p then False else b)"
| "some_open_had_callback p (SendCall path commands # cs) b =
     some_open_had_callback p cs b"

section \<open>The registry behind the entry points\<close>

text \<open>
  Modelled from the spec: the error taxonomy (section 7) and the data of the
  Registry/Manager (section 3). \<^verbatim>\<open>SerialPortManager\<close> and the worker class are
  declared and implemented in files that are not part of the sources. The registry maps
  a device path to its worker; a worker owns an inbound queue.
\<close>

datatype error =
    OpenError | UnsupportedBaudRateError | ConfigurationError
  | NotOpenError | NotFoundError | AlreadyOpenError

record worker_state =
  worker :: SPReadWriteWorker
  inbox :: "string list"

type_synonym registry = "string \<rightharpoonup> worker_state"

text \<open>
  Modelled from the spec: \<open>AddPort\<close> (section 4.3), the manager's missing
  \<^verbatim>\<open>addSerialPort\<close>. It opens the port and inserts the worker with an empty
  queue. Opening can fail, which \<open>open_port\<close> decides from the path and the rate;
  no worker stays registered then. The specification leaves open whether adding a path
  that is present is rejected with \<open>AlreadyOpenError\<close> or replaces the entry, so
  the policy is a parameter.
\<close>

datatype reopen_policy = RejectReopen | ReplaceOnReopen

definition AddPort ::
  "reopen_policy \<Rightarrow> (string \<Rightarrow> int \<Rightarrow> error option) \<Rightarrow> string \<Rightarrow> SPReadWriteWorker \<Rightarrow>
     registry \<Rightarrow> registry \<times> error option"
where
  "AddPort policy open_port path w reg =
     (if path \<in> dom reg \<and> policy = RejectReopen then (reg, Some AlreadyOpenError)
      else case w of SPReadWriteWorker name baudRate vm callback \<Rightarrow>
        (case open_port path baudRate of
           Some e \<Rightarrow> (reg(path := None), Some e)
         | None \<Rightarrow> (reg(path \<mapsto> \<lparr>worker = w, inbox = []\<rparr>), None)))"

text \<open>
  Modelled from the spec: \<open>RemoveSerialPort\<close> (section 4.3), the manager's missing
  \<^verbatim>\<open>removeSerialPort\<close>. It erases the entry and does nothing for an absent path.
\<close>

definition RemoveSerialPort :: "string \<Rightarrow> registry \<Rightarrow> registry \<times> error option" where
  "RemoveSerialPort path reg = (reg(path := None), None)"

text \<open>
  Modelled from the spec: \<open>SendMessage\<close> (section 4.3), the manager's missing
  \<^verbatim>\<open>sendMessage\<close>. It fails with \<open>NotFoundError\<close> for an absent path and
  otherwise enqueues each message onto the worker's queue, in the order given.
\<close>

fun enqueue_all :: "string list \<Rightarrow> string list \<Rightarrow> string list" where
  "enqueue_all queue [] = queue"
| "enqueue_all queue (m # ms) = enqueue_all (queue @ [m]) ms"

definition SendMessage :: "string \<Rightarrow> string list \<Rightarrow> registry \<Rightarrow> registry \<times> error option" where
  "SendMessage path messages reg =
     (case reg path of
        None \<Rightarrow> (reg, Some NotFoundError)
      | Some ws \<Rightarrow> (reg(path \<mapsto> ws\<lparr>inbox := enqueue_all (inbox ws) messages\<rparr>), None))"

text \<open>The three methods together, as the entry points take them.\<close>

definition spec_manager ::
  "reopen_policy \<Rightarrow> (string \<Rightarrow> int \<Rightarrow> error option) \<Rightarrow> (registry, error) SerialPortManager"
where
  "spec_manager policy open_port =
     \<lparr>addSerialPort = AddPort policy open_port,
      removeSerialPort = RemoveSerialPort,
      sendMessage = SendMessage\<rparr>"

text \<open>Concrete inputs for running the entry points.\<close>

definition every_port_opens :: "string \<Rightarrow> int \<Rightarrow> error option" where
  "every_port_opens path baudRate = None"

definition identity_env :: JNIEnv where
  "identity_env = \<lparr>NewGlobalRef = (\<lambda>obj. obj)\<rparr>"

definition no_ports :: "registry globals" where
  "no_ports = \<lparr>mManager = Map.empty, g_vm = Some 1, g_callback_map = Map.empty\<rparr>"

definition one_worker :: "registry globals" where
  "one_worker =
     \<lparr>mManager = [''/dev/ttyS0'' \<mapsto>
         \<lparr>worker = SPReadWriteWorker ''/dev/ttyS0'' 9600 None None, inbox = [''a'']\<rparr>],
      g_vm = Some 1, g_callback_map = Map.empty\<rparr>"

definition reopen_without_callback :: "jni_call list" where
  "reopen_without_callback =
     [OpenCall ''/dev/ttyS0'' 9600 (Some 7), OpenCall ''/dev/ttyS0'' 9600 None]"

definition open_send_close_open :: "jni_call list" where
  "open_send_close_open =
     [OpenCall ''/dev/ttyS0'' 9600 (Some 7), SendCall ''/dev/ttyS0'' [''AT''],
      CloseCall ''/dev/ttyS0'', OpenCall ''/dev/ttyS1'' 115200 (Some 8)]"

section \<open>The port of SerialPort.hpp and its read timeout\<close>

text \<open>
  The enumeration \<^verbatim>\<open>State\<close>, the private fields of \<^verbatim>\<open>class SerialPort\<close> and
  its two defaults are those of SerialPort.hpp (lines 64 to 67 and 145 to 165). The
  fields and the defaults lose the underscore that ends their names, which a name
  cannot end with here.
\<close>

datatype State = CLOSED | OPEN

record SerialPort =
  state :: State
  device :: string
  fileDesc :: int
  custom_baudRate :: int
  echo :: bool
  timeout_ms :: int
  readBuffer :: string
  readBufferSize_B :: "8 word"

definition defaultTimeout_ms :: int where
  "defaultTimeout_ms = - 1"

definition defaultReadBufferSize_B :: "8 word" where
  "defaultReadBufferSize_B = 255"

text \<open>
  Modelled from the spec: the timeout policy (section 3 and the header's comment on
  \<^verbatim>\<open>SetTimeout\<close>, lines 94 to 100). The bodies of \<^verbatim>\<open>SetTimeout\<close> and of
  the terminal configuration are in \<^verbatim>\<open>SerialPort.cpp\<close>, which is not part of the
  sources. The timeout \<open>- 1\<close> blocks until data, \<open>0\<close> returns at once, a positive
  timeout waits, rounded to the nearest \<open>100\<close> ms (a tie rounds up) and capped at
  \<open>25500\<close> ms. Neither the header nor the specification documents a timeout below
  \<open>- 1\<close>, which has no mode.
\<close>

datatype read_mode = BlockUntilData | ReturnImmediately | WaitUpTo int

definition round_to_100 :: "int \<Rightarrow> int" where
  "round_to_100 t = (t + 50) div 100 * 100"

definition effective_wait_ms :: "int \<Rightarrow> int" where
  "effective_wait_ms t = max 0 (min 25500 (round_to_100 t))"

definition timeout_mode :: "int \<Rightarrow> read_mode option" where
  "timeout_mode t =
     (if t = - 1 then Some BlockUntilData
      else if t = 0 then Some ReturnImmediately
      else if 0 < t then Some (WaitUpTo (effective_wait_ms t))
      else None)"

text \<open>
  Modelled from the spec: \<^verbatim>\<open>Read\<close> (sections 4.1 and 7; the header declares
  it, lines 125 to 130, and its body is in the missing \<^verbatim>\<open>SerialPort.cpp\<close>). It
  requires the state \<^verbatim>\<open>OPEN\<close>, makes one read attempt governed by the timeout
  and appends what it received, at most the buffer's capacity, to the output parameter.
  The receiving side of the descriptor is what one read call sees of it: the bytes the
  descriptor has buffered, and the next event on the wire with the delay in ms after
  which it occurs, if any ever does. The event is the arrival of bytes (a first byte
  and those behind it) or an I/O error of the device. A blocking read ends at the next
  event, a waiting read at the next event within its wait, and an immediate read
  returns before any event. \<open>Blocked\<close> is the call that does not return;
  \<open>ReadFailed\<close> is the call that the I/O error ends, for which the specification's
  taxonomy has no name.
\<close>

datatype line_event = Bytes char string | Fault

record rx_line =
  buffered :: string
  arrival :: "(int \<times> line_event) option"

datatype 'a outcome = Returned 'a | Raised error | ReadFailed | Blocked

definition deliver ::
  "nat \<Rightarrow> string \<Rightarrow> string \<Rightarrow> (int \<times> line_event) option \<Rightarrow> (string \<times> rx_line) outcome"
where
  "deliver capacity bytes data next_arrival =
     Returned (data @ take capacity bytes,
               \<lparr>buffered = drop capacity bytes, arrival = next_arrival\<rparr>)"

definition occur :: "nat \<Rightarrow> line_event \<Rightarrow> string \<Rightarrow> (string \<times> rx_line) outcome" where
  "occur capacity event data =
     (case event of
        Bytes b bytes \<Rightarrow> deliver capacity (b # bytes) data None
      | Fault \<Rightarrow> ReadFailed)"

definition Read :: "SerialPort \<Rightarrow> rx_line \<Rightarrow> string \<Rightarrow> (string \<times> rx_line) outcome option" where
  "Read p line data =
     (if state p \<noteq> OPEN then Some (Raised NotOpenError)
      else case timeout_mode (timeout_ms p) of
        None \<Rightarrow> None
      | Some mode \<Rightarrow>
          (let capacity = unat (readBufferSize_B p)
           in Some
             (if buffered line \<noteq> [] then deliver capacity (buffered line) data (arrival line)
              else case mode of
                ReturnImmediately \<Rightarrow> Returned (data, line)
              | BlockUntilData \<Rightarrow>
                  (case arrival line of
                     None \<Rightarrow> Blocked
                   | Some (delay, event) \<Rightarrow> occur capacity event data)
              | WaitUpTo wait \<Rightarrow>
                  (case arrival line of
                     None \<Rightarrow> Returned (data, line)
                   | Some (delay, event) \<Rightarrow>
                       (if delay \<le> wait then occur capacity event data
                        else Returned (data, line\<lparr>arrival := Some (delay - wait, event)\<rparr>))))))"

text \<open>A port and three lines for running \<open>Read\<close>.\<close>

definition open_port_1234 :: SerialPort where
  "open_port_1234 =
     \<lparr>state = OPEN, device = ''/dev/ttyS0'', fileDesc = 3, custom_baudRate = 9600,
      echo = False, timeout_ms = 1234, readBuffer = [],
      readBufferSize_B = defaultReadBufferSize_B\<rparr>"

definition silent_line :: rx_line where
  "silent_line = \<lparr>buffered = [], arrival = None\<rparr>"

definition late_line :: rx_line where
  "late_line = \<lparr>buffered = [], arrival = Some (1500, Bytes CHR ''x'' ''y'')\<rparr>"

definition failing_line :: rx_line where
  "failing_line = \<lparr>buffered = [], arrival = Some (200, Fault)\<rparr>"

section \<open>Properties of the baud-rate table\<close>

lemma rate_of_supported:
  assumes "r \<in> supported_rates"
  shows "\<exists>c. rate_of c = r"
  using assms unfolding supported_rates_def
  by (elim insertE emptyE) (erule ssubst, rule exI, rule rate_of.simps)+

lemma getBaudrate_rate_of: "getBaudrate speed (rate_of c) = speed c"
  by (cases c) (simp_all add: getBaudrate_def)

lemma getBaudrate_supported:
  assumes "r \<in> supported_rates"
  shows "\<exists>c. getBaudrate speed r = speed c \<and> rate_of c = r"
proof -
  from rate_of_supported [OF assms] obtain c where "rate_of c = r" ..
  with getBaudrate_rate_of [of speed c] show ?thesis by auto
qed

lemma getBaudrate_unsupported:
  assumes "r \<notin> supported_rates"
  shows "getBaudrate speed r = unsupported"
  using assms by (simp add: supported_rates_def getBaudrate_def unsupported_def)

lemma getBaudrate_baud_table:
  "list_all (\<lambda>(r, c). getBaudrate speed r = speed c) baud_table"
  by (simp add: baud_table_def getBaudrate_def)

lemma getBaudrate_inj_on:
  assumes "inj speed"
  shows "inj_on (getBaudrate speed) supported_rates"
proof (rule inj_onI)
  fix r r'
  assume r: "r \<in> supported_rates" and r': "r' \<in> supported_rates"
    and eq: "getBaudrate speed r = getBaudrate speed r'"
  from getBaudrate_supported [OF r] obtain c
    where c: "getBaudrate speed r = speed c" "rate_of c = r" by blast
  from getBaudrate_supported [OF r'] obtain c'
    where c': "getBaudrate speed r' = speed c'" "rate_of c' = r'" by blast
  from eq c c' have "speed c = speed c'" by simp
  with assms have "c = c'" by (simp add: inj_eq)
  with c c' show "r = r'" by simp
qed

lemma baud_table_rates: "fst ` set baud_table = supported_rates"
  by (simp add: baud_table_def supported_rates_def)

lemma linux_speed_inj: "inj linux_speed"
proof (rule injI)
  fix c c'
  assume "linux_speed c = linux_speed c'"
  then show "c = c'" by (cases c; cases c'; simp)
qed

lemma linux_speed_supported: "unsupported \<notin> range linux_speed"
proof
  assume "unsupported \<in> range linux_speed"
  then obtain c where "linux_speed c = - 1" by (auto simp: unsupported_def)
  then show False by (cases c) simp_all
qed

text \<open>
  C1. On a platform whose \<^verbatim>\<open>B\<close> macros are pairwise distinct and differ from
  \<^verbatim>\<open>(speed_t)-1\<close>: for every rate of the enumerated set the lookup returns the
  macro named after that rate, the lookup is injective on the set, and an integer is
  outside the set exactly when the lookup returns the sentinel \<^verbatim>\<open>-1\<close>.
\<close>

theorem getBaudrate_lookup:
  assumes distinct: "inj speed" and sentinel: "unsupported \<notin> range speed"
  shows "fst ` set baud_table = supported_rates
       \<and> list_all (\<lambda>(r, c). getBaudrate speed r = speed c) baud_table
       \<and> inj_on (getBaudrate speed) supported_rates
       \<and> (\<forall>r. (r \<notin> supported_rates) = (getBaudrate speed r = unsupported))"
proof (intro conjI allI)
  show "fst ` set baud_table = supported_rates" by (rule baud_table_rates)
  show "list_all (\<lambda>(r, c). getBaudrate speed r = speed c) baud_table"
    by (rule getBaudrate_baud_table)
  show "inj_on (getBaudrate speed) supported_rates"
    using distinct by (rule getBaudrate_inj_on)
next
  fix r
  show "(r \<notin> supported_rates) = (getBaudrate speed r = unsupported)"
  proof
    assume "r \<notin> supported_rates"
    then show "getBaudrate speed r = unsupported" by (rule getBaudrate_unsupported)
  next
    assume out: "getBaudrate speed r = unsupported"
    show "r \<notin> supported_rates"
    proof
      assume "r \<in> supported_rates"
      from getBaudrate_supported [OF this] obtain c
        where "getBaudrate speed r = speed c" by blast
      with out have "unsupported \<in> range speed" by (metis rangeI)
      with sentinel show False by contradiction
    qed
  qed
qed

theorem getBaudrate_lookup_witness:
  "inj linux_speed \<and> unsupported \<notin> range linux_speed
   \<and> getBaudrate linux_speed 9600 = 13
   \<and> getBaudrate linux_speed 115200 = 4098
   \<and> getBaudrate linux_speed 9600 \<noteq> getBaudrate linux_speed 115200
   \<and> getBaudrate linux_speed 12345 = 4294967295"
proof -
  note table = getBaudrate_lookup [OF linux_speed_inj linux_speed_supported]
  from table have "list_all (\<lambda>(r, c). getBaudrate linux_speed r = linux_speed c) baud_table"
    by blast
  then have low: "getBaudrate linux_speed 9600 = 13"
    and high: "getBaudrate linux_speed 115200 = 4098"
    by (simp_all add: baud_table_def)
  from table have "inj_on (getBaudrate linux_speed) supported_rates" by blast
  moreover have "9600 \<in> supported_rates" "115200 \<in> supported_rates"
    by (simp_all add: supported_rates_def)
  ultimately have differ: "getBaudrate linux_speed 9600 \<noteq> getBaudrate linux_speed 115200"
    by (auto dest: inj_onD)
  have "12345 \<notin> supported_rates" by (simp add: supported_rates_def)
  with table have "getBaudrate linux_speed 12345 = unsupported" by blast
  then have out: "getBaudrate linux_speed 12345 = 4294967295"
    by (simp add: unsupported_def)
  from linux_speed_inj linux_speed_supported low high differ out show ?thesis
    by blast
qed

section \<open>Properties of the JNI entry points\<close>

lemma collect_messages_drop:
  assumes "0 \<le> i" and "i \<le> stringCount" and "stringCount = int (length commands)"
  shows "collect_messages commands i stringCount msgs = msgs @ drop (nat i) commands"
  using assms
proof (induction commands i stringCount msgs rule: collect_messages.induct)
  case (1 commands i stringCount msgs)
  show ?case
  proof (cases "i < stringCount")
    case True
    with "1.prems" have in_range: "nat i < length commands" by simp
    from True "1.prems" have "collect_messages commands (i + 1) stringCount (msgs @ [commands ! nat i])
        = (msgs @ [commands ! nat i]) @ drop (nat (i + 1)) commands"
      by (intro "1.IH") simp_all
    moreover have "nat (i + 1) = Suc (nat i)" using "1.prems" by simp
    moreover from in_range have "commands ! nat i # drop (Suc (nat i)) commands = drop (nat i) commands"
      by (rule Cons_nth_drop_Suc)
    ultimately show ?thesis using True
      by (subst collect_messages.simps) (simp del: collect_messages.simps)
  next
    case False
    with "1.prems" have "nat i = length commands" by simp
    with False show ?thesis by (subst collect_messages.simps) simp
  qed
qed

lemma collect_messages_all:
  "collect_messages commands 0 (int (length commands)) [] = commands"
  by (simp add: collect_messages_drop del: collect_messages.simps)

lemma sendMessage_entry:
  "Java_com_castle_serialport_SerialPortManager_sendMessage mgr path commands g =
     (g\<lparr>mManager := fst (sendMessage mgr path commands (mManager g))\<rparr>,
      snd (sendMessage mgr path commands (mManager g)))"
  by (simp add: Java_com_castle_serialport_SerialPortManager_sendMessage_def
      collect_messages_all split: prod.splits del: collect_messages.simps)

lemma enqueue_all_append: "enqueue_all queue ms = queue @ ms"
  by (induction ms arbitrary: queue) simp_all


lemma SendMessage_present:
  assumes "reg path = Some ws"
  shows "SendMessage path messages reg =
           (reg(path \<mapsto> ws\<lparr>inbox := inbox ws @ messages\<rparr>), None)"
  using assms by (simp add: SendMessage_def enqueue_all_append)

lemma SendMessage_absent:
  assumes "reg path = None"
  shows "SendMessage path messages reg = (reg, Some NotFoundError)"
  using assms by (simp add: SendMessage_def)

text \<open>
  C7. For every manager, \<^verbatim>\<open>sendMessage\<close> hands the path and the messages to the
  manager's \<^verbatim>\<open>sendMessage\<close> in the order of the Java array. With the registry of
  the specification behind it: when the path is present, the messages are appended to
  the queue of that path's worker in the order given and nothing is raised; when the
  path is absent, the call raises \<open>NotFoundError\<close> and leaves the registry as it
  was.
\<close>

theorem sendMessage_preserves_order:
  "Java_com_castle_serialport_SerialPortManager_sendMessage mgr path commands h =
     (h\<lparr>mManager := fst (sendMessage mgr path commands (mManager h))\<rparr>,
      snd (sendMessage mgr path commands (mManager h)))
   \<and> (mManager g path = Some ws \<longrightarrow>
      Java_com_castle_serialport_SerialPortManager_sendMessage
        (spec_manager policy open_port) path commands g =
      (g\<lparr>mManager := (mManager g)(path \<mapsto> ws\<lparr>inbox := inbox ws @ commands\<rparr>)\<rparr>, None))
   \<and> (mManager g path = None \<longrightarrow>
      Java_com_castle_serialport_SerialPortManager_sendMessage
        (spec_manager policy open_port) path commands g =
      (g, Some NotFoundError))"
proof (intro conjI impI)
  show "Java_com_castle_serialport_SerialPortManager_sendMessage mgr path commands h =
     (h\<lparr>mManager := fst (sendMessage mgr path commands (mManager h))\<rparr>,
      snd (sendMessage mgr path commands (mManager h)))"
    by (rule sendMessage_entry)
next
  assume "mManager g path = Some ws"
  then show "Java_com_castle_serialport_SerialPortManager_sendMessage
        (spec_manager policy open_port) path commands g =
      (g\<lparr>mManager := (mManager g)(path \<mapsto> ws\<lparr>inbox := inbox ws @ commands\<rparr>)\<rparr>, None)"
    by (simp add: sendMessage_entry spec_manager_def SendMessage_present)
next
  assume "mManager g path = None"
  then show "Java_com_castle_serialport_SerialPortManager_sendMessage
        (spec_manager policy open_port) path commands g = (g, Some NotFoundError)"
    by (simp add: sendMessage_entry spec_manager_def SendMessage_absent)
qed

theorem sendMessage_preserves_order_witness:
  "mManager one_worker ''/dev/ttyS0'' =
     Some \<lparr>worker = SPReadWriteWorker ''/dev/ttyS0'' 9600 None None, inbox = [''a'']\<rparr>
   \<and> Java_com_castle_serialport_SerialPortManager_sendMessage
        (spec_manager RejectReopen every_port_opens) ''/dev/ttyS0'' [''b'', ''c''] one_worker =
      (one_worker\<lparr>mManager := [''/dev/ttyS0'' \<mapsto>
         \<lparr>worker = SPReadWriteWorker ''/dev/ttyS0'' 9600 None None,
          inbox = [''a'', ''b'', ''c'']\<rparr>]\<rparr>, None)
   \<and> mManager one_worker ''/dev/ttyS1'' = None
   \<and> Java_com_castle_serialport_SerialPortManager_sendMessage
        (spec_manager RejectReopen every_port_opens) ''/dev/ttyS1'' [''b'', ''c''] one_worker =
      (one_worker, Some NotFoundError)"
proof -
  have present: "mManager one_worker ''/dev/ttyS0'' =
     Some \<lparr>worker = SPReadWriteWorker ''/dev/ttyS0'' 9600 None None, inbox = [''a'']\<rparr>"
    by (simp add: one_worker_def)
  have absent: "mManager one_worker ''/dev/ttyS1'' = None"
    by (simp add: one_worker_def)
  note order = sendMessage_preserves_order [THEN conjunct2]
  from order [of one_worker "''/dev/ttyS0''" _ RejectReopen every_port_opens "[''b'', ''c'']"] present
  have sent: "Java_com_castle_serialport_SerialPortManager_sendMessage
        (spec_manager RejectReopen every_port_opens) ''/dev/ttyS0'' [''b'', ''c''] one_worker =
      (one_worker\<lparr>mManager := [''/dev/ttyS0'' \<mapsto>
         \<lparr>worker = SPReadWriteWorker ''/dev/ttyS0'' 9600 None None,
          inbox = [''a'', ''b'', ''c'']\<rparr>]\<rparr>, None)"
    by (simp add: one_worker_def)
  from order [of one_worker "''/dev/ttyS1''" _ RejectReopen every_port_opens "[''b'', ''c'']"] absent
  have refused: "Java_com_castle_serialport_SerialPortManager_sendMessage
        (spec_manager RejectReopen every_port_opens) ''/dev/ttyS1'' [''b'', ''c''] one_worker =
      (one_worker, Some NotFoundError)"
    by simp
  from present sent absent refused show ?thesis by simp
qed


lemma openSerialPort_callback_map:
  "g_callback_map (fst (Java_com_castle_serialport_SerialPortManager_openSerialPort
      mgr env path baudRate callback g)) =
   (case callback of
      Some cb \<Rightarrow> (g_callback_map g)(path \<mapsto> NewGlobalRef env cb)
    | None \<Rightarrow> g_callback_map g)"
  by (simp add: Java_com_castle_serialport_SerialPortManager_openSerialPort_def Let_def
      split: option.splits prod.splits)

lemma closeSerialPort_callback_map:
  "g_callback_map (fst (Java_com_castle_serialport_SerialPortManager_closeSerialPort mgr path g)) =
   (case snd (removeSerialPort mgr path (mManager g)) of
      None \<Rightarrow> (g_callback_map g)(path := None)
    | Some e \<Rightarrow> g_callback_map g)"
  by (simp add: Java_com_castle_serialport_SerialPortManager_closeSerialPort_def
      split: option.splits prod.splits)

lemma closeSerialPort_error:
  "snd (Java_com_castle_serialport_SerialPortManager_closeSerialPort mgr path g) =
   snd (removeSerialPort mgr path (mManager g))"
  by (simp add: Java_com_castle_serialport_SerialPortManager_closeSerialPort_def
      split: option.splits prod.splits)

lemma sendMessage_callback_map:
  "g_callback_map (fst (Java_com_castle_serialport_SerialPortManager_sendMessage
      mgr path commands g)) = g_callback_map g"
  by (simp add: sendMessage_entry)

lemma jni_step_callback_map:
  assumes "jni_step mgr env c g = (g', None)"
  shows "(p \<in> dom (g_callback_map g')) =
         some_open_had_callback p [c] (p \<in> dom (g_callback_map g))"
proof (cases c)
  case (OpenCall path baudRate callback)
  with assms have "g' = fst (Java_com_castle_serialport_SerialPortManager_openSerialPort
      mgr env path baudRate callback g)" by simp
  then have "g_callback_map g' =
      (case callback of
         Some cb \<Rightarrow> (g_callback_map g)(path \<mapsto> NewGlobalRef env cb)
       | None \<Rightarrow> g_callback_map g)"
    by (simp only: openSerialPort_callback_map)
  with OpenCall show ?thesis by (auto split: option.splits)
next
  case (CloseCall path)
  with assms have run: "Java_com_castle_serialport_SerialPortManager_closeSerialPort mgr path g
      = (g', None)" by simp
  then have "snd (removeSerialPort mgr path (mManager g)) = None"
    by (simp add: closeSerialPort_error [symmetric])
  with run closeSerialPort_callback_map [of mgr path g]
  have "g_callback_map g' = (g_callback_map g)(path := None)" by simp
  with CloseCall show ?thesis by auto
next
  case (SendCall path commands)
  with assms sendMessage_callback_map [of mgr path commands g]
  have "g_callback_map g' = g_callback_map g" by simp
  with SendCall show ?thesis by simp
qed

lemma some_open_had_callback_Cons:
  "some_open_had_callback p (c # cs) b =
   some_open_had_callback p cs (some_open_had_callback p [c] b)"
  by (cases c) simp_all

lemma jni_run_callback_map:
  assumes "jni_run mgr env calls g = (g', None)"
  shows "(p \<in> dom (g_callback_map g')) =
         some_open_had_callback p calls (p \<in> dom (g_callback_map g))"
  using assms
proof (induction calls arbitrary: g)
  case Nil
  then show ?case by simp
next
  case (Cons c cs)
  obtain g1 e where step: "jni_step mgr env c g = (g1, e)" by (cases "jni_step mgr env c g")
  with Cons.prems have e: "e = None" and rest: "jni_run mgr env cs g1 = (g', None)"
    by (auto split: option.splits)
  from step e have "(p \<in> dom (g_callback_map g1)) =
      some_open_had_callback p [c] (p \<in> dom (g_callback_map g))"
    by (intro jni_step_callback_map) simp
  with Cons.IH [OF rest] show ?case
    by (simp only: some_open_had_callback_Cons [of p c cs])
qed


lemmas run_defs =
  Java_com_castle_serialport_SerialPortManager_openSerialPort_def
  Java_com_castle_serialport_SerialPortManager_closeSerialPort_def
  sendMessage_entry spec_manager_def AddPort_def RemoveSerialPort_def SendMessage_def
  enqueue_all_append every_port_opens_def identity_env_def no_ports_def START_READ_def

text \<open>
  C10, as amended. For every manager: after a sequence of calls that all returned, a
  path is a key of \<^verbatim>\<open>g_callback_map\<close> exactly when some \<^verbatim>\<open>openSerialPort\<close> of
  the path since its last \<^verbatim>\<open>closeSerialPort\<close> (or, with none, since the start,
  where the path may already be a key) supplied a callback. \<^verbatim>\<open>closeSerialPort\<close>
  erases the path's entry whenever \<^verbatim>\<open>removeSerialPort\<close> returns, an
  \<^verbatim>\<open>openSerialPort\<close> with a callback overwrites the path's entry, and one without
  a callback leaves the map as it is.
\<close>

theorem callback_map_tracks_opens:
  assumes "jni_run mgr env calls g = (g', None)"
  shows "(p \<in> dom (g_callback_map g')) =
           some_open_had_callback p calls (p \<in> dom (g_callback_map g))
       \<and> (snd (removeSerialPort mgr path (mManager h)) = None \<longrightarrow>
            g_callback_map (fst (Java_com_castle_serialport_SerialPortManager_closeSerialPort
              mgr path h)) = (g_callback_map h)(path := None))
       \<and> g_callback_map (fst (Java_com_castle_serialport_SerialPortManager_openSerialPort
            mgr env path baudRate (Some cb) h)) = (g_callback_map h)(path \<mapsto> NewGlobalRef env cb)
       \<and> g_callback_map (fst (Java_com_castle_serialport_SerialPortManager_openSerialPort
            mgr env path baudRate None h)) = g_callback_map h"
proof (intro conjI impI)
  from assms show "(p \<in> dom (g_callback_map g')) =
      some_open_had_callback p calls (p \<in> dom (g_callback_map g))"
    by (rule jni_run_callback_map)
next
  assume "snd (removeSerialPort mgr path (mManager h)) = None"
  then show "g_callback_map (fst (Java_com_castle_serialport_SerialPortManager_closeSerialPort
      mgr path h)) = (g_callback_map h)(path := None)"
    by (simp add: closeSerialPort_callback_map)
next
  show "g_callback_map (fst (Java_com_castle_serialport_SerialPortManager_openSerialPort
      mgr env path baudRate (Some cb) h)) = (g_callback_map h)(path \<mapsto> NewGlobalRef env cb)"
    by (simp add: openSerialPort_callback_map)
next
  show "g_callback_map (fst (Java_com_castle_serialport_SerialPortManager_openSerialPort
      mgr env path baudRate None h)) = g_callback_map h"
    by (simp add: openSerialPort_callback_map)
qed

theorem callback_map_tracks_opens_witness:
  "snd (jni_run (spec_manager RejectReopen every_port_opens) identity_env
          open_send_close_open no_ports) = None
   \<and> ''/dev/ttyS0'' \<notin> dom (g_callback_map (fst (jni_run
          (spec_manager RejectReopen every_port_opens) identity_env
          open_send_close_open no_ports)))
   \<and> ''/dev/ttyS1'' \<in> dom (g_callback_map (fst (jni_run
          (spec_manager RejectReopen every_port_opens) identity_env
          open_send_close_open no_ports)))"
proof -
  define final where "final = fst (jni_run (spec_manager RejectReopen every_port_opens)
    identity_env open_send_close_open no_ports)"
  have returns: "snd (jni_run (spec_manager RejectReopen every_port_opens) identity_env
      open_send_close_open no_ports) = None"
    by (simp add: open_send_close_open_def run_defs)
  then have run: "jni_run (spec_manager RejectReopen every_port_opens) identity_env
      open_send_close_open no_ports = (final, None)"
    by (simp add: final_def prod_eq_iff)
  note tracks = callback_map_tracks_opens [OF run, THEN conjunct1]
  have "(''/dev/ttyS0'' \<in> dom (g_callback_map final)) =
      some_open_had_callback ''/dev/ttyS0'' open_send_close_open
        (''/dev/ttyS0'' \<in> dom (g_callback_map no_ports))"
    by (rule tracks)
  then have closed: "''/dev/ttyS0'' \<notin> dom (g_callback_map final)"
    by (simp add: open_send_close_open_def no_ports_def)
  have "(''/dev/ttyS1'' \<in> dom (g_callback_map final)) =
      some_open_had_callback ''/dev/ttyS1'' open_send_close_open
        (''/dev/ttyS1'' \<in> dom (g_callback_map no_ports))"
    by (rule tracks)
  then have opened: "''/dev/ttyS1'' \<in> dom (g_callback_map final)"
    by (simp add: open_send_close_open_def no_ports_def)
  from returns closed opened show ?thesis by (simp only: final_def simp_thms)
qed

text \<open>
  C10, as stated, fails: open a path with a callback, then open it again without one.
  The most recent \<^verbatim>\<open>openSerialPort\<close> of the path supplied no callback, yet the
  path is still a key of the map. This is so when the registry replaces the worker, and
  also when it rejects the second open: the entry point does not touch the map on that
  branch.
\<close>

theorem callback_map_stale_entry:
  "snd (jni_run (spec_manager ReplaceOnReopen every_port_opens) identity_env
          reopen_without_callback no_ports) = None
   \<and> ''/dev/ttyS0'' \<in> dom (g_callback_map (fst (jni_run
          (spec_manager ReplaceOnReopen every_port_opens) identity_env
          reopen_without_callback no_ports)))
   \<and> snd (jni_run (spec_manager RejectReopen every_port_opens) identity_env
          reopen_without_callback no_ports) = Some AlreadyOpenError
   \<and> ''/dev/ttyS0'' \<in> dom (g_callback_map (fst (jni_run
          (spec_manager RejectReopen every_port_opens) identity_env
          reopen_without_callback no_ports)))
   \<and> \<not> last_open_had_callback ''/dev/ttyS0'' reopen_without_callback
          (''/dev/ttyS0'' \<in> dom (g_callback_map no_ports))"
  by (simp add: reopen_without_callback_def run_defs)


text \<open>
  C6. For every manager: an \<^verbatim>\<open>openSerialPort\<close> with a callback stores the
  callback's global reference under the path, registers a worker built from the path,
  the rate, the VM handle and the pointer to that map slot, and, when
  \<^verbatim>\<open>addSerialPort\<close> returns, sends the one-element message list holding the
  "start" token to the same path, on the manager state that \<^verbatim>\<open>addSerialPort\<close>
  left; the caller takes no further step. When \<^verbatim>\<open>addSerialPort\<close> raises, the
  entry point ends there.
\<close>

theorem openSerialPort_sends_START_READ:
  "(addSerialPort mgr path (SPReadWriteWorker path baudRate (g_vm g) (Some path)) (mManager g)
      = (m, None) \<longrightarrow>
    Java_com_castle_serialport_SerialPortManager_openSerialPort mgr env path baudRate (Some cb) g =
      (g\<lparr>g_callback_map := (g_callback_map g)(path \<mapsto> NewGlobalRef env cb),
         mManager := fst (sendMessage mgr path [''start''] m)\<rparr>,
       snd (sendMessage mgr path [''start''] m)))
   \<and> (addSerialPort mgr path (SPReadWriteWorker path baudRate (g_vm g) (Some path)) (mManager g)
      = (m, Some e) \<longrightarrow>
    Java_com_castle_serialport_SerialPortManager_openSerialPort mgr env path baudRate (Some cb) g =
      (g\<lparr>g_callback_map := (g_callback_map g)(path \<mapsto> NewGlobalRef env cb),
         mManager := m\<rparr>, Some e))"
proof (intro conjI impI)
  assume "addSerialPort mgr path (SPReadWriteWorker path baudRate (g_vm g) (Some path))
      (mManager g) = (m, None)"
  then show "Java_com_castle_serialport_SerialPortManager_openSerialPort
      mgr env path baudRate (Some cb) g =
      (g\<lparr>g_callback_map := (g_callback_map g)(path \<mapsto> NewGlobalRef env cb),
         mManager := fst (sendMessage mgr path [''start''] m)\<rparr>,
       snd (sendMessage mgr path [''start''] m))"
    by (simp add: Java_com_castle_serialport_SerialPortManager_openSerialPort_def
        START_READ_def split: prod.splits)
next
  assume "addSerialPort mgr path (SPReadWriteWorker path baudRate (g_vm g) (Some path))
      (mManager g) = (m, Some e)"
  then show "Java_com_castle_serialport_SerialPortManager_openSerialPort
      mgr env path baudRate (Some cb) g =
      (g\<lparr>g_callback_map := (g_callback_map g)(path \<mapsto> NewGlobalRef env cb),
         mManager := m\<rparr>, Some e)"
    by (simp add: Java_com_castle_serialport_SerialPortManager_openSerialPort_def)
qed

theorem openSerialPort_sends_START_READ_witness:
  "addSerialPort (spec_manager RejectReopen every_port_opens) ''/dev/ttyS0''
      (SPReadWriteWorker ''/dev/ttyS0'' 9600 (g_vm no_ports) (Some ''/dev/ttyS0''))
      (mManager no_ports) =
     ([''/dev/ttyS0'' \<mapsto> \<lparr>worker = SPReadWriteWorker ''/dev/ttyS0'' 9600 (Some 1)
          (Some ''/dev/ttyS0''), inbox = []\<rparr>], None)
   \<and> snd (Java_com_castle_serialport_SerialPortManager_openSerialPort
        (spec_manager RejectReopen every_port_opens) identity_env ''/dev/ttyS0'' 9600 (Some 7)
        no_ports) = None
   \<and> mManager (fst (Java_com_castle_serialport_SerialPortManager_openSerialPort
        (spec_manager RejectReopen every_port_opens) identity_env ''/dev/ttyS0'' 9600 (Some 7)
        no_ports)) ''/dev/ttyS0'' =
      Some \<lparr>worker = SPReadWriteWorker ''/dev/ttyS0'' 9600 (Some 1) (Some ''/dev/ttyS0''),
            inbox = [''start'']\<rparr>
   \<and> g_callback_map (fst (Java_com_castle_serialport_SerialPortManager_openSerialPort
        (spec_manager RejectReopen every_port_opens) identity_env ''/dev/ttyS0'' 9600 (Some 7)
        no_ports)) ''/dev/ttyS0'' = Some 7"
proof -
  have added: "addSerialPort (spec_manager RejectReopen every_port_opens) ''/dev/ttyS0''
      (SPReadWriteWorker ''/dev/ttyS0'' 9600 (g_vm no_ports) (Some ''/dev/ttyS0''))
      (mManager no_ports) =
     ([''/dev/ttyS0'' \<mapsto> \<lparr>worker = SPReadWriteWorker ''/dev/ttyS0'' 9600 (Some 1)
          (Some ''/dev/ttyS0''), inbox = []\<rparr>], None)"
    by (simp add: spec_manager_def AddPort_def every_port_opens_def no_ports_def)
  from openSerialPort_sends_START_READ [THEN conjunct1, rule_format, OF added]
  have opened: "Java_com_castle_serialport_SerialPortManager_openSerialPort
      (spec_manager RejectReopen every_port_opens) env ''/dev/ttyS0'' 9600 (Some cb) no_ports =
      (no_ports\<lparr>g_callback_map := (g_callback_map no_ports)(''/dev/ttyS0'' \<mapsto> NewGlobalRef env cb),
         mManager := fst (sendMessage (spec_manager RejectReopen every_port_opens) ''/dev/ttyS0''
           [''start''] [''/dev/ttyS0'' \<mapsto> \<lparr>worker = SPReadWriteWorker ''/dev/ttyS0'' 9600
             (Some 1) (Some ''/dev/ttyS0''), inbox = []\<rparr>])\<rparr>,
       snd (sendMessage (spec_manager RejectReopen every_port_opens) ''/dev/ttyS0''
           [''start''] [''/dev/ttyS0'' \<mapsto> \<lparr>worker = SPReadWriteWorker ''/dev/ttyS0'' 9600
             (Some 1) (Some ''/dev/ttyS0''), inbox = []\<rparr>]))" for env cb .
  show ?thesis
    by (simp only: added opened)
      (simp add: spec_manager_def SendMessage_def identity_env_def no_ports_def)
qed

text \<open>
  C9. For every manager: an \<^verbatim>\<open>openSerialPort\<close> without a callback makes one
  manager call, \<^verbatim>\<open>addSerialPort\<close> with a worker whose VM handle and callback
  pointer are null; it leaves \<^verbatim>\<open>g_callback_map\<close> as it is; and it does not call
  \<^verbatim>\<open>sendMessage\<close>: replacing that method by any other changes nothing, so no
  "start" token is sent.
\<close>

theorem openSerialPort_without_callback:
  "Java_com_castle_serialport_SerialPortManager_openSerialPort mgr env path baudRate None g =
     (g\<lparr>mManager := fst (addSerialPort mgr path (SPReadWriteWorker path baudRate None None)
          (mManager g))\<rparr>,
      snd (addSerialPort mgr path (SPReadWriteWorker path baudRate None None) (mManager g)))
   \<and> g_callback_map (fst (Java_com_castle_serialport_SerialPortManager_openSerialPort
        mgr env path baudRate None g)) = g_callback_map g
   \<and> Java_com_castle_serialport_SerialPortManager_openSerialPort
        (mgr\<lparr>sendMessage := other\<rparr>) env path baudRate None g =
      Java_com_castle_serialport_SerialPortManager_openSerialPort mgr env path baudRate None g"
proof (intro conjI)
  show entry: "Java_com_castle_serialport_SerialPortManager_openSerialPort
      mgr env path baudRate None g =
     (g\<lparr>mManager := fst (addSerialPort mgr path (SPReadWriteWorker path baudRate None None)
          (mManager g))\<rparr>,
      snd (addSerialPort mgr path (SPReadWriteWorker path baudRate None None) (mManager g)))"
    for mgr :: "('a, 'b) SerialPortManager"
    by (simp add: Java_com_castle_serialport_SerialPortManager_openSerialPort_def
        split: prod.splits)
  show "g_callback_map (fst (Java_com_castle_serialport_SerialPortManager_openSerialPort
      mgr env path baudRate None g)) = g_callback_map g"
    by (simp add: entry)
  show "Java_com_castle_serialport_SerialPortManager_openSerialPort
      (mgr\<lparr>sendMessage := other\<rparr>) env path baudRate None g =
      Java_com_castle_serialport_SerialPortManager_openSerialPort mgr env path baudRate None g"
    by (simp add: entry)
qed

theorem openSerialPort_without_callback_witness:
  "snd (Java_com_castle_serialport_SerialPortManager_openSerialPort
        (spec_manager RejectReopen every_port_opens) identity_env ''/dev/ttyS0'' 9600 None
        no_ports) = None
   \<and> mManager (fst (Java_com_castle_serialport_SerialPortManager_openSerialPort
        (spec_manager RejectReopen every_port_opens) identity_env ''/dev/ttyS0'' 9600 None
        no_ports)) ''/dev/ttyS0'' =
      Some \<lparr>worker = SPReadWriteWorker ''/dev/ttyS0'' 9600 None None, inbox = []\<rparr>
   \<and> g_callback_map (fst (Java_com_castle_serialport_SerialPortManager_openSerialPort
        (spec_manager RejectReopen every_port_opens) identity_env ''/dev/ttyS0'' 9600 None
        no_ports)) = Map.empty"
proof -
  note entry = openSerialPort_without_callback
    [of "spec_manager RejectReopen every_port_opens" identity_env "''/dev/ttyS0''" 9600 no_ports,
     THEN conjunct1]
  show ?thesis
    by (simp only: entry)
      (simp add: spec_manager_def AddPort_def every_port_opens_def no_ports_def)
qed

section \<open>Properties of the read timeout\<close>

lemma round_to_100_multiple: "100 dvd round_to_100 t"
  by (simp add: round_to_100_def)

lemma round_to_100_bounds: "round_to_100 t \<le> t + 50 \<and> t - 50 < round_to_100 t"
proof -
  have "(t + 50) div 100 * 100 + (t + 50) mod 100 = t + 50" by simp
  moreover have "0 \<le> (t + 50) mod 100" "(t + 50) mod 100 < 100" by simp_all
  ultimately show ?thesis unfolding round_to_100_def by linarith
qed

lemma round_to_100_nearest: "\<bar>round_to_100 t - t\<bar> \<le> 50"
  using round_to_100_bounds [of t] by linarith

lemma round_to_100_mono:
  assumes "s \<le> t"
  shows "round_to_100 s \<le> round_to_100 t"
proof -
  from assms have "(s + 50) div 100 \<le> (t + 50) div 100"
    by (intro zdiv_mono1) simp_all
  then show ?thesis by (simp add: round_to_100_def)
qed

lemma effective_wait_ms_multiple: "100 dvd effective_wait_ms t"
proof -
  have "effective_wait_ms t = 0 \<or> effective_wait_ms t = 25500
      \<or> effective_wait_ms t = round_to_100 t"
    by (auto simp: effective_wait_ms_def max_def min_def)
  then show ?thesis using round_to_100_multiple [of t] by auto
qed

lemma effective_wait_ms_range: "0 \<le> effective_wait_ms t \<and> effective_wait_ms t \<le> 25500"
  by (simp add: effective_wait_ms_def)

lemma effective_wait_ms_nearest:
  assumes "0 < t" and "t \<le> 25500"
  shows "\<bar>effective_wait_ms t - t\<bar> \<le> 50"
proof -
  from assms have "round_to_100 0 \<le> round_to_100 t" "round_to_100 t \<le> round_to_100 25500"
    by (simp_all add: round_to_100_mono)
  then have "0 \<le> round_to_100 t" "round_to_100 t \<le> 25500"
    by (simp_all add: round_to_100_def)
  then have "effective_wait_ms t = round_to_100 t" by (simp add: effective_wait_ms_def)
  with round_to_100_nearest [of t] show ?thesis by simp
qed

lemma effective_wait_ms_capped:
  assumes "25500 \<le> t"
  shows "effective_wait_ms t = 25500"
proof -
  from assms have "round_to_100 25500 \<le> round_to_100 t" by (rule round_to_100_mono)
  then have "25500 \<le> round_to_100 t" by (simp add: round_to_100_def)
  then show ?thesis by (simp add: effective_wait_ms_def)
qed

lemma timeout_mode_block: "timeout_mode (- 1) = Some BlockUntilData"
  by (simp add: timeout_mode_def)

lemma timeout_mode_immediate: "timeout_mode 0 = Some ReturnImmediately"
  by (simp add: timeout_mode_def)

lemma timeout_mode_wait:
  assumes "0 < t"
  shows "timeout_mode t = Some (WaitUpTo (effective_wait_ms t))"
  using assms by (simp add: timeout_mode_def)

lemma Read_block:
  assumes "state p = OPEN" and "timeout_ms p = - 1"
  shows "Read p line data =
     Some (if buffered line \<noteq> []
           then deliver (unat (readBufferSize_B p)) (buffered line) data (arrival line)
           else case arrival line of
                  None \<Rightarrow> Blocked
                | Some (delay, event) \<Rightarrow> occur (unat (readBufferSize_B p)) event data)"
  using assms by (simp add: Read_def timeout_mode_block Let_def)

lemma Read_immediate:
  assumes "state p = OPEN" and "timeout_ms p = 0"
  shows "Read p line data =
     Some (Returned (data @ take (unat (readBufferSize_B p)) (buffered line),
                     line\<lparr>buffered := drop (unat (readBufferSize_B p)) (buffered line)\<rparr>))"
  using assms by (cases line) (simp add: Read_def timeout_mode_immediate deliver_def Let_def)

lemma Read_wait:
  assumes "state p = OPEN" and "0 < timeout_ms p"
  shows "Read p line data =
     Some (if buffered line \<noteq> []
           then deliver (unat (readBufferSize_B p)) (buffered line) data (arrival line)
           else case arrival line of
                  None \<Rightarrow> Returned (data, line)
                | Some (delay, event) \<Rightarrow>
                    if delay \<le> effective_wait_ms (timeout_ms p)
                    then occur (unat (readBufferSize_B p)) event data
                    else Returned (data, line\<lparr>arrival :=
                           Some (delay - effective_wait_ms (timeout_ms p), event)\<rparr>))"
  using assms by (simp add: Read_def timeout_mode_wait Let_def)

lemma deliver_gains:
  assumes "0 < capacity" and "bytes \<noteq> []"
    and "deliver capacity bytes data next_arrival = Returned (got, rest)"
  shows "length data < length got"
  using assms by (cases bytes) (auto simp: deliver_def)

lemma occur_gains:
  assumes "0 < capacity" and "occur capacity event data = Returned (got, rest)"
  shows "length data < length got"
proof (cases event)
  case (Bytes b bytes)
  with assms(2) have "deliver capacity (b # bytes) data None = Returned (got, rest)"
    by (simp add: occur_def)
  with assms(1) show ?thesis by (intro deliver_gains) simp_all
next
  case Fault
  with assms(2) show ?thesis by (simp add: occur_def)
qed

lemma occur_outcomes:
  "occur capacity event data \<noteq> Blocked"
  "occur capacity event data \<noteq> Raised e"
  "(occur capacity event data = ReadFailed) = (event = Fault)"
  by (cases event; simp add: occur_def deliver_def)+

lemma deliver_outcomes:
  "deliver capacity bytes data next_arrival \<noteq> Blocked"
  "deliver capacity bytes data next_arrival \<noteq> Raised e"
  "deliver capacity bytes data next_arrival \<noteq> ReadFailed"
  by (simp_all add: deliver_def)

lemma unat_capacity:
  assumes "readBufferSize_B p \<noteq> 0"
  shows "0 < unat (readBufferSize_B p)"
  using assms by (simp add: unat_gt_0)

text \<open>
  C2. For an open port with a read buffer of at least one byte. With the timeout
  \<open>- 1\<close>, \<open>Read\<close> does not return exactly when nothing is buffered and no
  event ever occurs on the wire; it fails exactly when nothing is buffered and the next
  event is an I/O error; when it returns it has appended at least one byte, the
  buffered ones or else the next to arrive; and it raises nothing. With the timeout
  \<open>0\<close> it returns at once with the buffered bytes, up to the capacity, possibly
  none. With a timeout \<open>t > 0\<close> the wait is \<open>effective_wait_ms t\<close>: a multiple
  of \<open>100\<close> between \<open>0\<close> and \<open>25500\<close>, within \<open>50\<close> of \<open>t\<close> when
  \<open>t \<le> 25500\<close> and \<open>25500\<close> above; bytes that arrive within the wait are
  returned, an I/O error within the wait fails the call, and otherwise the call
  returns the data unchanged after the wait.
\<close>

theorem Read_timeout_policy:
  assumes opened: "state p = OPEN" and capacity: "readBufferSize_B p \<noteq> 0"
  shows
    "(timeout_ms p = - 1 \<longrightarrow>
        (Read p line data = Some Blocked) = (buffered line = [] \<and> arrival line = None)
      \<and> (Read p line data = Some ReadFailed) =
          (buffered line = [] \<and> (\<exists>delay. arrival line = Some (delay, Fault)))
      \<and> (\<forall>got rest. Read p line data = Some (Returned (got, rest)) \<longrightarrow>
            length data < length got)
      \<and> (buffered line \<noteq> [] \<longrightarrow>
            Read p line data =
              Some (deliver (unat (readBufferSize_B p)) (buffered line) data (arrival line)))
      \<and> (\<forall>delay b bytes.
            buffered line = [] \<and> arrival line = Some (delay, Bytes b bytes) \<longrightarrow>
            Read p line data =
              Some (deliver (unat (readBufferSize_B p)) (b # bytes) data None))
      \<and> (\<forall>e. Read p line data \<noteq> Some (Raised e))
      \<and> Read p line data \<noteq> None)
   \<and> (timeout_ms p = 0 \<longrightarrow>
        Read p line data =
          Some (Returned (data @ take (unat (readBufferSize_B p)) (buffered line),
                          line\<lparr>buffered := drop (unat (readBufferSize_B p)) (buffered line)\<rparr>)))
   \<and> (0 < timeout_ms p \<longrightarrow>
        timeout_mode (timeout_ms p) = Some (WaitUpTo (effective_wait_ms (timeout_ms p)))
      \<and> 100 dvd effective_wait_ms (timeout_ms p)
      \<and> 0 \<le> effective_wait_ms (timeout_ms p)
      \<and> effective_wait_ms (timeout_ms p) \<le> 25500
      \<and> (timeout_ms p \<le> 25500 \<longrightarrow> \<bar>effective_wait_ms (timeout_ms p) - timeout_ms p\<bar> \<le> 50)
      \<and> (25500 \<le> timeout_ms p \<longrightarrow> effective_wait_ms (timeout_ms p) = 25500)
      \<and> (buffered line \<noteq> [] \<longrightarrow>
            Read p line data =
              Some (deliver (unat (readBufferSize_B p)) (buffered line) data (arrival line)))
      \<and> (buffered line = [] \<and> arrival line = None \<longrightarrow>
            Read p line data = Some (Returned (data, line)))
      \<and> (\<forall>delay b bytes.
            buffered line = [] \<and> arrival line = Some (delay, Bytes b bytes) \<longrightarrow>
            Read p line data =
              Some (if delay \<le> effective_wait_ms (timeout_ms p)
                    then deliver (unat (readBufferSize_B p)) (b # bytes) data None
                    else Returned (data, line\<lparr>arrival :=
                           Some (delay - effective_wait_ms (timeout_ms p), Bytes b bytes)\<rparr>)))
      \<and> (\<forall>delay. buffered line = [] \<and> arrival line = Some (delay, Fault) \<longrightarrow>
            Read p line data =
              Some (if delay \<le> effective_wait_ms (timeout_ms p)
                    then ReadFailed
                    else Returned (data, line\<lparr>arrival :=
                           Some (delay - effective_wait_ms (timeout_ms p), Fault)\<rparr>))))"
proof (intro conjI impI allI)
  assume t: "timeout_ms p = - 1"
  note read = Read_block [OF opened t, of line data]
  show "(Read p line data = Some Blocked) = (buffered line = [] \<and> arrival line = None)"
    by (auto simp: read deliver_outcomes occur_outcomes split: option.splits)
  show "(Read p line data = Some ReadFailed) =
      (buffered line = [] \<and> (\<exists>delay. arrival line = Some (delay, Fault)))"
    by (auto simp: read deliver_outcomes occur_outcomes split: option.splits)
  show "Read p line data \<noteq> Some (Raised e)" for e
    by (auto simp: read deliver_outcomes occur_outcomes split: option.splits)
  show "Read p line data \<noteq> None"
    by (simp add: read)
  show "Read p line data =
      Some (deliver (unat (readBufferSize_B p)) (buffered line) data (arrival line))"
    if "buffered line \<noteq> []"
    using that by (simp add: read)
  show "Read p line data = Some (deliver (unat (readBufferSize_B p)) (b # bytes) data None)"
    if "buffered line = [] \<and> arrival line = Some (delay, Bytes b bytes)" for delay b bytes
    using that by (simp add: read occur_def)
  show "length data < length got" if "Read p line data = Some (Returned (got, rest))" for got rest
  proof (cases "buffered line = []")
    case False
    with that read
    have "deliver (unat (readBufferSize_B p)) (buffered line) data (arrival line)
        = Returned (got, rest)" by simp
    with unat_capacity [OF capacity] False show ?thesis by (rule deliver_gains)
  next
    case True
    with that read obtain event where
      "occur (unat (readBufferSize_B p)) event data = Returned (got, rest)"
      by (auto split: option.splits)
    with unat_capacity [OF capacity] show ?thesis by (rule occur_gains)
  qed
next
  assume "timeout_ms p = 0"
  with opened show "Read p line data =
      Some (Returned (data @ take (unat (readBufferSize_B p)) (buffered line),
                      line\<lparr>buffered := drop (unat (readBufferSize_B p)) (buffered line)\<rparr>))"
    by (rule Read_immediate)
next
  assume t: "0 < timeout_ms p"
  note read = Read_wait [OF opened t, of line data]
  from t show "timeout_mode (timeout_ms p) = Some (WaitUpTo (effective_wait_ms (timeout_ms p)))"
    by (rule timeout_mode_wait)
  show "100 dvd effective_wait_ms (timeout_ms p)"
    by (rule effective_wait_ms_multiple)
  show "0 \<le> effective_wait_ms (timeout_ms p)" "effective_wait_ms (timeout_ms p) \<le> 25500"
    using effective_wait_ms_range [of "timeout_ms p"] by simp_all
  show "\<bar>effective_wait_ms (timeout_ms p) - timeout_ms p\<bar> \<le> 50" if "timeout_ms p \<le> 25500"
    using t that by (rule effective_wait_ms_nearest)
  show "effective_wait_ms (timeout_ms p) = 25500" if "25500 \<le> timeout_ms p"
    using that by (rule effective_wait_ms_capped)
  show "Read p line data =
      Some (deliver (unat (readBufferSize_B p)) (buffered line) data (arrival line))"
    if "buffered line \<noteq> []"
    using that by (simp add: read)
  show "Read p line data = Some (Returned (data, line))"
    if "buffered line = [] \<and> arrival line = None"
    using that by (simp add: read)
  show "Read p line data =
      Some (if delay \<le> effective_wait_ms (timeout_ms p)
            then deliver (unat (readBufferSize_B p)) (b # bytes) data None
            else Returned (data, line\<lparr>arrival :=
                   Some (delay - effective_wait_ms (timeout_ms p), Bytes b bytes)\<rparr>))"
    if "buffered line = [] \<and> arrival line = Some (delay, Bytes b bytes)" for delay b bytes
    using that by (simp add: read occur_def)
  show "Read p line data =
      Some (if delay \<le> effective_wait_ms (timeout_ms p)
            then ReadFailed
            else Returned (data, line\<lparr>arrival :=
                   Some (delay - effective_wait_ms (timeout_ms p), Fault)\<rparr>))"
    if "buffered line = [] \<and> arrival line = Some (delay, Fault)" for delay
    using that by (simp add: read occur_def)
qed

theorem Read_timeout_policy_witness:
  "state open_port_1234 = OPEN \<and> readBufferSize_B open_port_1234 \<noteq> 0
   \<and> timeout_mode 1234 = Some (WaitUpTo 1200)
   \<and> Read open_port_1234 late_line ''ab'' =
       Some (Returned (''ab'', \<lparr>buffered = [], arrival = Some (300, Bytes CHR ''x'' ''y'')\<rparr>))
   \<and> Read (open_port_1234\<lparr>timeout_ms := 30000\<rparr>) late_line ''ab'' =
       Some (Returned (''abxy'', silent_line))
   \<and> Read open_port_1234 failing_line ''ab'' = Some ReadFailed
   \<and> Read (open_port_1234\<lparr>timeout_ms := defaultTimeout_ms\<rparr>) silent_line ''ab'' = Some Blocked
   \<and> Read (open_port_1234\<lparr>timeout_ms := defaultTimeout_ms\<rparr>) failing_line ''ab'' =
       Some ReadFailed
   \<and> Read (open_port_1234\<lparr>timeout_ms := defaultTimeout_ms\<rparr>) late_line ''ab'' =
       Some (Returned (''abxy'', silent_line))
   \<and> Read (open_port_1234\<lparr>timeout_ms := 0\<rparr>) late_line ''ab'' = Some (Returned (''ab'', late_line))"
proof -
  have opened: "state (open_port_1234\<lparr>timeout_ms := t\<rparr>) = OPEN" for t
    by (simp add: open_port_1234_def)
  have capacity: "readBufferSize_B (open_port_1234\<lparr>timeout_ms := t\<rparr>) \<noteq> 0" for t
    by (simp add: open_port_1234_def defaultReadBufferSize_B_def)
  have same: "open_port_1234\<lparr>timeout_ms := 1234\<rparr> = open_port_1234"
    by (simp add: open_port_1234_def)
  note policy = Read_timeout_policy [OF opened capacity]
  note evals = open_port_1234_def late_line_def silent_line_def failing_line_def deliver_def
    effective_wait_ms_def round_to_100_def defaultReadBufferSize_B_def
  from policy [of 1234 late_line "''ab''"]
  have mode: "timeout_mode 1234 = Some (WaitUpTo 1200)"
    and short: "Read open_port_1234 late_line ''ab'' =
       Some (Returned (''ab'', \<lparr>buffered = [], arrival = Some (300, Bytes CHR ''x'' ''y'')\<rparr>))"
    by (simp_all add: evals)
  from policy [of 30000 late_line "''ab''"]
  have long: "Read (open_port_1234\<lparr>timeout_ms := 30000\<rparr>) late_line ''ab'' =
       Some (Returned (''abxy'', silent_line))"
    by (simp add: evals)
  from policy [of 1234 failing_line "''ab''"]
  have failed: "Read open_port_1234 failing_line ''ab'' = Some ReadFailed"
    by (simp add: evals)
  from policy [of defaultTimeout_ms silent_line "''ab''"]
  have block: "Read (open_port_1234\<lparr>timeout_ms := defaultTimeout_ms\<rparr>) silent_line ''ab'' =
       Some Blocked"
    by (simp add: evals defaultTimeout_ms_def)
  from policy [of defaultTimeout_ms failing_line "''ab''"]
  have block_failed:
    "Read (open_port_1234\<lparr>timeout_ms := defaultTimeout_ms\<rparr>) failing_line ''ab'' =
       Some ReadFailed"
    by (simp add: evals defaultTimeout_ms_def)
  from policy [of defaultTimeout_ms late_line "''ab''"]
  have block_data:
    "Read (open_port_1234\<lparr>timeout_ms := defaultTimeout_ms\<rparr>) late_line ''ab'' =
       Some (Returned (''abxy'', silent_line))"
    by (simp add: evals defaultTimeout_ms_def)
  from policy [of 0 late_line "''ab''"]
  have immediate: "Read (open_port_1234\<lparr>timeout_ms := 0\<rparr>) late_line ''ab'' =
       Some (Returned (''ab'', late_line))"
    by (simp add: evals)
  from opened [of 1234] capacity [of 1234] mode short long failed block block_failed
    block_data immediate
  show ?thesis by (simp only: same simp_thms)
qed

end
